theory Spec2Isabelle
  imports Complex_Main "HOL-Library.Word"
begin

section \<open>Python values, exceptions and float arithmetic\<close>

text \<open>
  The service (\<^verbatim>\<open>main.py\<close>) is Python. A function of the source that can raise is
  modelled with a result of type \<open>py_error + 'a\<close>: \<open>Inl e\<close> is the exception \<open>e\<close>
  leaving the function, \<open>Inr v\<close> is the value \<open>v\<close> returned.
\<close>

datatype py_error =
    KeyError
  | IndexError
  | TypeError
  | ValueError
  | AttributeError
  | UnicodeEncodeError

text \<open>
  A Python \<^verbatim>\<open>float\<close> is a binary64 number, and each arithmetic operation on floats is
  the operation on the real numbers followed by rounding to a float. The rounding
  function is the platform's, not the repository's: it is the parameter \<open>rnd\<close> of the
  model. With \<open>rnd = (\<lambda>x. x)\<close> the model computes in exact arithmetic. Infinities and
  NaN are not values of the model.
\<close>

definition fadd :: "(real \<Rightarrow> real) \<Rightarrow> real \<Rightarrow> real \<Rightarrow> real" where
  "fadd rnd x y = rnd (x + y)"

definition fsub :: "(real \<Rightarrow> real) \<Rightarrow> real \<Rightarrow> real \<Rightarrow> real" where
  "fsub rnd x y = rnd (x - y)"

definition fdiv :: "(real \<Rightarrow> real) \<Rightarrow> real \<Rightarrow> real \<Rightarrow> real" where
  "fdiv rnd x y = rnd (x / y)"

text \<open>
  What the theorems below ask of a rounding function, where they ask anything: a float
  rounds to itself, and rounding commutes with negation (round-to-nearest has both
  properties).
\<close>

definition rounding :: "(real \<Rightarrow> real) \<Rightarrow> bool" where
  "rounding rnd \<longleftrightarrow> (\<forall>x. rnd (rnd x) = rnd x) \<and> (\<forall>x. rnd (- x) = - rnd x)"

text \<open>
  The error of one rounding in binary64 with round-to-nearest: below the overflow
  threshold it is at most the unit roundoff \<open>2 ^ -53\<close> relative to the exact value, or
  half the spacing \<open>2 ^ -1074\<close> of the subnormal numbers where that is larger.
\<close>

definition accurate :: "(real \<Rightarrow> real) \<Rightarrow> bool" where
  "accurate rnd \<longleftrightarrow>
     (\<forall>x. \<bar>x\<bar> \<le> 2 ^ 1023 \<longrightarrow> \<bar>rnd x - x\<bar> \<le> max (\<bar>x\<bar> / 2 ^ 53) (1 / 2 ^ 1075))"

section \<open>The EXIF tag mapping\<close>

text \<open>
  \<^verbatim>\<open>get_exif_data\<close> builds a dict whose keys are tag names, or the numeric tag where the
  tag dictionary has no name for it (\<^verbatim>\<open>TAGS.get(tag, tag)\<close>). Under the key
  \<^verbatim>\<open>"GPSInfo"\<close> it stores a dict of the GPS sub-tags, keyed the same way.
\<close>

datatype tag = TagName string | TagId nat

text \<open>
  An element of a coordinate is described by what \<^verbatim>\<open>float()\<close> makes of it:
  \<^item> \<open>Num x\<close>: a number of value \<open>x\<close> (an int, a float, a rational); \<^verbatim>\<open>float()\<close> returns
    the float nearest to \<open>x\<close>;
  \<^item> \<open>NonNumeric\<close>: an object \<^verbatim>\<open>float()\<close> rejects with TypeError (None, a tuple);
  \<^item> \<open>BadString\<close>: a string \<^verbatim>\<open>float()\<close> rejects with ValueError.
\<close>

datatype component = Num real | NonNumeric | BadString

text \<open>
  A value of the GPS sub-block is described by what indexing and comparison with a
  string make of it:
  \<^item> \<open>Text s\<close>: a str (EXIF text is decoded as Latin-1, one \<open>char\<close> per character);
  \<^item> \<open>Seq xs\<close>: a tuple or list of the elements \<open>xs\<close>;
  \<^item> \<open>Other\<close>: any other object: not a str, and not subscriptable (a number, None).
\<close>

datatype gps_value = Text string | Seq "component list" | Other

text \<open>
  A value of the tag mapping is the GPS sub-block (a dict), or \<open>Plain\<close>: a value that is
  not a dict (a number, a string, bytes, a tuple), for which \<^verbatim>\<open>v["GPSLatitude"]\<close> raises
  TypeError.
\<close>

datatype tag_value = GPSBlock "tag \<Rightarrow> gps_value option" | Plain

type_synonym exif_data = "tag \<Rightarrow> tag_value option"

section \<open>Degree conversion\<close>

fun py_float :: "(real \<Rightarrow> real) \<Rightarrow> component \<Rightarrow> py_error + real" where
  "py_float rnd (Num x) = Inr (rnd x)"
| "py_float rnd NonNumeric = Inl TypeError"
| "py_float rnd BadString = Inl ValueError"

text \<open>
  Indexing a str gives the one-character str at that place, and \<^verbatim>\<open>float()\<close> of a
  one-character Latin-1 str succeeds exactly on the digits \<^verbatim>\<open>0\<close> to \<^verbatim>\<open>9\<close>.
\<close>

definition char_component :: "char \<Rightarrow> component" where
  "char_component c =
     (let n = (of_char c :: nat)
      in if 48 \<le> n \<and> n \<le> 57 then Num (real (n - 48)) else BadString)"

fun getitem :: "gps_value \<Rightarrow> nat \<Rightarrow> py_error + component" where
  "getitem (Seq xs) i = (if i < length xs then Inr (xs ! i) else Inl IndexError)"
| "getitem (Text s) i =
     (if i < length s then Inr (char_component (s ! i)) else Inl IndexError)"
| "getitem Other i = Inl TypeError"

text \<open>
  \<^verbatim>\<open>
  def convert_to_degrees(value):
      d = float(value[0])
      m = float(value[1])
      s = float(value[2])
      return d + (m / 60.0) + (s / 3600.0)
  \<close>
  The three statements run in order, so the first one that raises decides the exception.
\<close>

definition float_at :: "(real \<Rightarrow> real) \<Rightarrow> gps_value \<Rightarrow> nat \<Rightarrow> py_error + real" where
  "float_at rnd v i = (case getitem v i of Inl e \<Rightarrow> Inl e | Inr c \<Rightarrow> py_float rnd c)"

definition convert_to_degrees :: "(real \<Rightarrow> real) \<Rightarrow> gps_value \<Rightarrow> py_error + real" where
  "convert_to_degrees rnd v =
     (case float_at rnd v 0 of Inl e \<Rightarrow> Inl e | Inr d \<Rightarrow>
     (case float_at rnd v 1 of Inl e \<Rightarrow> Inl e | Inr m \<Rightarrow>
     (case float_at rnd v 2 of Inl e \<Rightarrow> Inl e | Inr s \<Rightarrow>
        Inr (fadd rnd (fadd rnd d (fdiv rnd m 60)) (fdiv rnd s 3600)))))"

section \<open>Latitude and longitude\<close>

text \<open>\<^verbatim>\<open>gps_info[key]\<close>: KeyError on a dict without the key, TypeError on a value that is no dict.\<close>

fun subscript :: "tag_value \<Rightarrow> string \<Rightarrow> py_error + gps_value" where
  "subscript (GPSBlock g) k =
     (case g (TagName k) of None \<Rightarrow> Inl KeyError | Some v \<Rightarrow> Inr v)"
| "subscript Plain k = Inl TypeError"

text \<open>
  \<^verbatim>\<open>
  def get_lat_lon(exif_data):
      if "GPSInfo" in exif_data:
          gps_info = exif_data["GPSInfo"]
          gps_latitude = gps_info["GPSLatitude"]
          gps_latitude_ref = gps_info["GPSLatitudeRef"]
          gps_longitude = gps_info["GPSLongitude"]
          gps_longitude_ref = gps_info["GPSLongitudeRef"]

          lat = convert_to_degrees(gps_latitude)
          if gps_latitude_ref != "N":
              lat = 0 - lat

          lon = convert_to_degrees(gps_longitude)
          if gps_longitude_ref != "E":
              lon = 0 - lon

          return lat, lon
      return None, None
  \<close>
  The returned pair is a pair of options: \<open>None\<close> is Python's None.
\<close>

definition get_lat_lon ::
  "(real \<Rightarrow> real) \<Rightarrow> exif_data \<Rightarrow> py_error + (real option \<times> real option)" where
  "get_lat_lon rnd exif_data =
     (case exif_data (TagName ''GPSInfo'') of
        None \<Rightarrow> Inr (None, None)
      | Some gps_info \<Rightarrow>
         (case subscript gps_info ''GPSLatitude'' of Inl e \<Rightarrow> Inl e | Inr gps_latitude \<Rightarrow>
         (case subscript gps_info ''GPSLatitudeRef'' of Inl e \<Rightarrow> Inl e | Inr gps_latitude_ref \<Rightarrow>
         (case subscript gps_info ''GPSLongitude'' of Inl e \<Rightarrow> Inl e | Inr gps_longitude \<Rightarrow>
         (case subscript gps_info ''GPSLongitudeRef'' of Inl e \<Rightarrow> Inl e | Inr gps_longitude_ref \<Rightarrow>
         (case convert_to_degrees rnd gps_latitude of Inl e \<Rightarrow> Inl e | Inr lat0 \<Rightarrow>
           (let lat = (if gps_latitude_ref \<noteq> Text ''N'' then fsub rnd 0 lat0 else lat0) in
         (case convert_to_degrees rnd gps_longitude of Inl e \<Rightarrow> Inl e | Inr lon0 \<Rightarrow>
           (let lon = (if gps_longitude_ref \<noteq> Text ''E'' then fsub rnd 0 lon0 else lon0) in
            Inr (Some lat, Some lon))))))))))"

section \<open>Strings and bytes\<close>

text \<open>
  A Python \<^verbatim>\<open>str\<close> is a sequence of code points, a \<^verbatim>\<open>bytes\<close> object a sequence of
  bytes. \<open>str_of\<close> reads an ASCII or Latin-1 literal as a \<^verbatim>\<open>str\<close>.
\<close>

type_synonym byte = "8 word"

type_synonym pystr = "nat list"

definition str_of :: "string \<Rightarrow> pystr" where
  "str_of s = map of_char s"

text \<open>
  \<^verbatim>\<open>s.encode()\<close> is UTF-8: one to four bytes for a code point, and
  UnicodeEncodeError for a surrogate (\<^verbatim>\<open>U+D800\<close> to \<^verbatim>\<open>U+DFFF\<close>: an environment variable
  with undecodable bytes, or the JSON escape \<^verbatim>\<open>\ud800\<close>, gives one). The code points of
  a \<^verbatim>\<open>str\<close> are below \<^verbatim>\<open>0x110000\<close>.
\<close>

definition encode_char :: "nat \<Rightarrow> py_error + byte list" where
  "encode_char c =
     (if c < 0x80 then Inr [word_of_nat c]
      else if c < 0x800 then
        Inr [word_of_nat (0xC0 + c div 0x40), word_of_nat (0x80 + c mod 0x40)]
      else if 0xD800 \<le> c \<and> c < 0xE000 then Inl UnicodeEncodeError
      else if c < 0x10000 then
        Inr [word_of_nat (0xE0 + c div 0x1000), word_of_nat (0x80 + c div 0x40 mod 0x40),
             word_of_nat (0x80 + c mod 0x40)]
      else
        Inr [word_of_nat (0xF0 + c div 0x40000), word_of_nat (0x80 + c div 0x1000 mod 0x40),
             word_of_nat (0x80 + c div 0x40 mod 0x40), word_of_nat (0x80 + c mod 0x40)])"

fun encode :: "pystr \<Rightarrow> py_error + byte list" where
  "encode [] = Inr []"
| "encode (c # cs) =
     (case encode_char c of Inl e \<Rightarrow> Inl e | Inr bs \<Rightarrow>
     (case encode cs of Inl e \<Rightarrow> Inl e | Inr rest \<Rightarrow> Inr (bs @ rest)))"

section \<open>SHA-256 and HMAC\<close>

text \<open>
  \<^verbatim>\<open>hashlib.sha256\<close> and \<^verbatim>\<open>hmac.new(key, msg, hashlib.sha256)\<close> are the standard
  library's; they are written out here (FIPS 180-4 and RFC 2104) so that the verifier is
  a function that computes.
\<close>

definition rotr :: "nat \<Rightarrow> 32 word \<Rightarrow> 32 word" where
  "rotr n x = or (drop_bit n x) (push_bit (32 - n) x)"

definition Ch :: "32 word \<Rightarrow> 32 word \<Rightarrow> 32 word \<Rightarrow> 32 word" where
  "Ch x y z = xor (and x y) (and (not x) z)"

definition Maj :: "32 word \<Rightarrow> 32 word \<Rightarrow> 32 word \<Rightarrow> 32 word" where
  "Maj x y z = xor (xor (and x y) (and x z)) (and y z)"

definition bsig0 :: "32 word \<Rightarrow> 32 word" where
  "bsig0 x = xor (xor (rotr 2 x) (rotr 13 x)) (rotr 22 x)"

definition bsig1 :: "32 word \<Rightarrow> 32 word" where
  "bsig1 x = xor (xor (rotr 6 x) (rotr 11 x)) (rotr 25 x)"

definition ssig0 :: "32 word \<Rightarrow> 32 word" where
  "ssig0 x = xor (xor (rotr 7 x) (rotr 18 x)) (drop_bit 3 x)"

definition ssig1 :: "32 word \<Rightarrow> 32 word" where
  "ssig1 x = xor (xor (rotr 17 x) (rotr 19 x)) (drop_bit 10 x)"

text \<open>
  The constants of SHA-256 by their definition: the round constants are the first 32
  bits of the fractional parts of the cube roots of the first 64 primes, the initial hash
  value the first 32 bits of the fractional parts of the square roots of the first 8
  primes. \<open>root_from k n b 0\<close> is the integer \<open>k\<close>-th root of \<open>n\<close>, found bit by bit
  from bit \<open>b - 1\<close> down; the root of \<open>p * 2 ^ (32 * k)\<close> holds the integer part of the
  root of \<open>p\<close> above its low 32 bits, which \<open>word_of_nat\<close> cuts off.
\<close>

fun root_from :: "nat \<Rightarrow> nat \<Rightarrow> nat \<Rightarrow> nat \<Rightarrow> nat" where
  "root_from k n 0 r = r"
| "root_from k n (Suc b) r = root_from k n b (if (r + 2 ^ b) ^ k \<le> n then r + 2 ^ b else r)"

definition is_prime :: "nat \<Rightarrow> bool" where
  "is_prime n = (1 < n \<and> list_all (\<lambda>d. n mod d \<noteq> 0) [2..<n])"

definition first_primes :: "nat \<Rightarrow> nat list" where
  "first_primes n = take n (filter is_prime [2..<320])"

definition frac_root :: "nat \<Rightarrow> nat \<Rightarrow> 32 word" where
  "frac_root k p = word_of_nat (root_from k (p * 2 ^ (32 * k)) 40 0)"

definition K256 :: "32 word list" where
  "K256 = map (frac_root 3) (first_primes 64)"

type_synonym sha_state =
  "32 word \<times> 32 word \<times> 32 word \<times> 32 word \<times> 32 word \<times> 32 word \<times> 32 word \<times> 32 word"

definition H256 :: sha_state where
  "H256 = (frac_root 2 2, frac_root 2 3, frac_root 2 5, frac_root 2 7,
           frac_root 2 11, frac_root 2 13, frac_root 2 17, frac_root 2 19)"

text \<open>
  Padding: the byte \<^verbatim>\<open>0x80\<close>, zero bytes up to 56 modulo 64, and the length of the
  message in bits as 64 bits, most significant byte first.
\<close>

definition pad :: "byte list \<Rightarrow> byte list" where
  "pad m =
     m @ [0x80] @ replicate ((119 - length m mod 64) mod 64) 0
       @ map (\<lambda>i. ucast (drop_bit (8 * (7 - i)) (word_of_nat (8 * length m) :: 64 word))) [0..<8]"

fun blocks :: "byte list \<Rightarrow> byte list list" where
  "blocks bs = (if length bs < 64 then [] else take 64 bs # blocks (drop 64 bs))"

definition be32 :: "byte list \<Rightarrow> 32 word" where
  "be32 bs = foldl (\<lambda>w b. or (push_bit 8 w) (ucast b)) 0 bs"

definition bytes32 :: "32 word \<Rightarrow> byte list" where
  "bytes32 w = [ucast (drop_bit 24 w), ucast (drop_bit 16 w), ucast (drop_bit 8 w), ucast w]"

fun words :: "byte list \<Rightarrow> 32 word list" where
  "words (a # b # c # d # bs) = be32 [a, b, c, d] # words bs"
| "words bs = []"

text \<open>The message schedule: \<open>schedule 48\<close> extends the 16 words of a block to 64.\<close>

fun schedule :: "nat \<Rightarrow> 32 word list \<Rightarrow> 32 word list" where
  "schedule 0 w = w"
| "schedule (Suc n) w =
     (let t = length w
      in schedule n
           (w @ [ssig1 (w ! (t - 2)) + w ! (t - 7) + ssig0 (w ! (t - 15)) + w ! (t - 16)]))"

fun round_step :: "32 word \<times> 32 word \<Rightarrow> sha_state \<Rightarrow> sha_state" where
  "round_step (k, w) (a, b, c, d, e, f, g, h) =
     (let t1 = h + bsig1 e + Ch e f g + k + w;
          t2 = bsig0 a + Maj a b c
      in (t1 + t2, a, b, c, d + t1, e, f, g))"

fun add_state :: "sha_state \<Rightarrow> sha_state \<Rightarrow> sha_state" where
  "add_state (a, b, c, d, e, f, g, h) (a', b', c', d', e', f', g', h') =
     (a + a', b + b', c + c', d + d', e + e', f + f', g + g', h + h')"

definition compress :: "byte list \<Rightarrow> sha_state \<Rightarrow> sha_state" where
  "compress block st = add_state st (fold round_step (zip K256 (schedule 48 (words block))) st)"

fun digest :: "sha_state \<Rightarrow> byte list" where
  "digest (a, b, c, d, e, f, g, h) =
     bytes32 a @ bytes32 b @ bytes32 c @ bytes32 d @ bytes32 e @ bytes32 f @ bytes32 g @ bytes32 h"

definition sha256 :: "byte list \<Rightarrow> byte list" where
  "sha256 m = digest (fold compress (blocks (pad m)) H256)"

text \<open>
  HMAC with the block size 64 of SHA-256: a key longer than a block is hashed first, any
  key is filled with zero bytes to the block size. The empty key is a key like any other.
\<close>

definition hmac_sha256 :: "byte list \<Rightarrow> byte list \<Rightarrow> byte list" where
  "hmac_sha256 key msg =
     (let k0 = (if 64 < length key then sha256 key else key);
          k = k0 @ replicate (64 - length k0) 0
      in sha256 (map (xor 0x5c) k @ sha256 (map (xor 0x36) k @ msg)))"

text \<open>\<^verbatim>\<open>.hexdigest()\<close>: two lower-case hexadecimal digits for each byte.\<close>

definition hex_digit :: "nat \<Rightarrow> nat" where
  "hex_digit n = (if n < 10 then 48 + n else 87 + n)"

definition hexdigest :: "byte list \<Rightarrow> pystr" where
  "hexdigest bs = concat (map (\<lambda>b. [hex_digit (unat b div 16), hex_digit (unat b mod 16)]) bs)"

section \<open>Signature verification\<close>

text \<open>
  \<^verbatim>\<open>hmac.compare_digest(a, b)\<close> with \<open>a\<close> a \<^verbatim>\<open>str\<close>: TypeError unless \<open>b\<close> is a \<^verbatim>\<open>str\<close>
  too and both are ASCII, and then whether they are equal (the comparison takes the same
  time whatever the strings hold; time is not modelled). The second argument is an
  option: \<open>None\<close> is Python's None, which \<^verbatim>\<open>request.headers.get('Box-Signature')\<close> returns
  for a request without the header.
\<close>

definition is_ascii :: "pystr \<Rightarrow> bool" where
  "is_ascii s = list_all (\<lambda>c. c < 128) s"

definition compare_digest :: "pystr \<Rightarrow> pystr option \<Rightarrow> py_error + bool" where
  "compare_digest a b =
     (case b of
        None \<Rightarrow> Inl TypeError
      | Some s \<Rightarrow> if is_ascii a \<and> is_ascii s then Inr (a = s) else Inl TypeError)"

text \<open>
  The module reads its configuration from the environment when it is loaded;
  \<^verbatim>\<open>os.getenv\<close> gives None for a variable that is not set.
\<close>

record config =
  BOX_CLIENT_ID :: "pystr option"
  BOX_CLIENT_SECRET :: "pystr option"
  BOX_REDIRECT_URI :: "pystr option"
  BOX_DEVELOPER_TOKEN :: "pystr option"
  BOX_FOLDER_ID :: "pystr option"
  BOX_WEBHOOK_SECRET :: "pystr option"

text \<open>
  \<^verbatim>\<open>
  def verify_signature(payload, signature):
      expected_signature = hmac.new(BOX_WEBHOOK_SECRET.encode(), str(payload).encode(),
                                    hashlib.sha256).hexdigest()
      return hmac.compare_digest(expected_signature, signature)
  \<close>
  \<open>payload\<close> is the parsed JSON body. Python's \<^verbatim>\<open>str()\<close> of it is the parameter
  \<open>py_str\<close>; the arguments of \<^verbatim>\<open>hmac.new\<close> are evaluated from left to right.
\<close>

definition verify_signature ::
  "('p \<Rightarrow> pystr) \<Rightarrow> config \<Rightarrow> 'p \<Rightarrow> pystr option \<Rightarrow> py_error + bool" where
  "verify_signature py_str cfg payload signature =
     (case BOX_WEBHOOK_SECRET cfg of
        None \<Rightarrow> Inl AttributeError
      | Some secret \<Rightarrow>
         (case encode secret of Inl e \<Rightarrow> Inl e | Inr key \<Rightarrow>
         (case encode (py_str payload) of Inl e \<Rightarrow> Inl e | Inr msg \<Rightarrow>
            (let expected_signature = hexdigest (hmac_sha256 key msg)
             in compare_digest expected_signature signature))))"

section \<open>Inputs used in the examples\<close>

definition gps_block ::
  "gps_value \<Rightarrow> gps_value \<Rightarrow> gps_value \<Rightarrow> gps_value \<Rightarrow> tag \<Rightarrow> gps_value option" where
  "gps_block lat lat_ref lon lon_ref =
     [TagName ''GPSLatitude'' \<mapsto> lat, TagName ''GPSLatitudeRef'' \<mapsto> lat_ref,
      TagName ''GPSLongitude'' \<mapsto> lon, TagName ''GPSLongitudeRef'' \<mapsto> lon_ref]"

text \<open>The scenario of the specification, with the two hemisphere references left open.\<close>

definition scenario :: "string \<Rightarrow> string \<Rightarrow> exif_data" where
  "scenario lat_ref lon_ref =
     [TagName ''GPSInfo'' \<mapsto> GPSBlock
        (gps_block (Seq [Num 40, Num 44, Num 54.36]) (Text lat_ref)
                   (Seq [Num 73, Num 59, Num 8.76]) (Text lon_ref))]"

text \<open>The same four values among other tags and other GPS sub-tags.\<close>

definition scenario_among_others :: "string \<Rightarrow> string \<Rightarrow> exif_data" where
  "scenario_among_others lat_ref lon_ref =
     [TagName ''Make'' \<mapsto> Plain, TagId 59932 \<mapsto> Plain,
      TagName ''GPSInfo'' \<mapsto> GPSBlock
        ((gps_block (Seq [Num 40, Num 44, Num 54.36]) (Text lat_ref)
                    (Seq [Num 73, Num 59, Num 8.76]) (Text lon_ref))
           (TagName ''GPSAltitude'' \<mapsto> Other, TagId 31 \<mapsto> Other))]"



definition no_secret :: config where
  "no_secret =
     \<lparr>BOX_CLIENT_ID = None, BOX_CLIENT_SECRET = None, BOX_REDIRECT_URI = None,
      BOX_DEVELOPER_TOKEN = None, BOX_FOLDER_ID = None, BOX_WEBHOOK_SECRET = None\<rparr>"

definition with_secret :: config where
  "with_secret = no_secret\<lparr>BOX_WEBHOOK_SECRET := Some (str_of ''secret'')\<rparr>"

text \<open>
  The signature of the payload \<^verbatim>\<open>[]\<close> (whose \<^verbatim>\<open>str()\<close> is \<^verbatim>\<open>[]\<close>) under the secret
  \<^verbatim>\<open>secret\<close>. Evaluating the definitions gives the string
  \<^verbatim>\<open>53364a07fcc563e712f42cfc9de1e28e1e2d39f236cee430f112203e557aea3f\<close>, the value Python's
  \<^verbatim>\<open>hmac\<close> module computes; the proofs below use only that it has 64 ASCII characters.
\<close>

definition expected_example :: pystr where
  "expected_example =
     hexdigest (hmac_sha256 (map word_of_nat (str_of ''secret'')) (map word_of_nat (str_of ''[]'')))"

text \<open>A signature with bit \<open>k\<close> of its character \<open>i\<close> flipped.\<close>

definition flip_sig_bit :: "nat \<Rightarrow> nat \<Rightarrow> pystr \<Rightarrow> pystr" where
  "flip_sig_bit i k s = s[i := flip_bit k (s ! i)]"

section \<open>Properties of the coordinate extraction\<close>

subsection \<open>What the two functions compute\<close>

lemma convert_to_degrees_numbers:
  "convert_to_degrees rnd (Seq [Num d, Num m, Num s]) =
     Inr (fadd rnd (fadd rnd (rnd d) (fdiv rnd (rnd m) 60)) (fdiv rnd (rnd s) 3600))"
  by (simp add: convert_to_degrees_def float_at_def)

lemma convert_to_degrees_rounded:
  "convert_to_degrees rnd v = Inr x \<Longrightarrow> \<exists>y. x = rnd y"
  by (auto simp add: convert_to_degrees_def fadd_def split: sum.splits)

text \<open>With all four keys in the sub-block, the four lookups succeed and the rest decides.\<close>

lemma get_lat_lon_block:
  assumes "exif_data (TagName ''GPSInfo'') = Some (GPSBlock g)"
    and "g (TagName ''GPSLatitude'') = Some gps_latitude"
    and "g (TagName ''GPSLatitudeRef'') = Some gps_latitude_ref"
    and "g (TagName ''GPSLongitude'') = Some gps_longitude"
    and "g (TagName ''GPSLongitudeRef'') = Some gps_longitude_ref"
  shows "get_lat_lon rnd exif_data =
     (case convert_to_degrees rnd gps_latitude of Inl e \<Rightarrow> Inl e | Inr lat0 \<Rightarrow>
     (case convert_to_degrees rnd gps_longitude of Inl e \<Rightarrow> Inl e | Inr lon0 \<Rightarrow>
        Inr (Some (if gps_latitude_ref \<noteq> Text ''N'' then fsub rnd 0 lat0 else lat0),
             Some (if gps_longitude_ref \<noteq> Text ''E'' then fsub rnd 0 lon0 else lon0))))"
  using assms by (simp add: get_lat_lon_def Let_def split: sum.splits)

lemma get_lat_lon_scenario_eq:
  "get_lat_lon rnd (scenario a b) =
     Inr (Some (let x = fadd rnd (fadd rnd (rnd 40) (fdiv rnd (rnd 44) 60)) (fdiv rnd (rnd 54.36) 3600)
                in if a \<noteq> ''N'' then fsub rnd 0 x else x),
          Some (let y = fadd rnd (fadd rnd (rnd 73) (fdiv rnd (rnd 59) 60)) (fdiv rnd (rnd 8.76) 3600)
                in if b \<noteq> ''E'' then fsub rnd 0 y else y))"
  by (simp add: get_lat_lon_def scenario_def gps_block_def convert_to_degrees_numbers Let_def)

subsection \<open>Rounding\<close>

lemma rounding_id: "rounding id"
  by (simp add: rounding_def)

lemma accurate_id: "accurate id"
  by (simp add: accurate_def le_max_iff_disj)

text \<open>\<^verbatim>\<open>0 - lat\<close> is exact: the negative of a float is a float.\<close>

lemma negate_exact:
  assumes "rounding rnd" and "convert_to_degrees rnd v = Inr x"
  shows "fsub rnd 0 x = - x"
proof -
  obtain y where y: "x = rnd y"
    using assms(2) convert_to_degrees_rounded by blast
  have "fsub rnd 0 x = rnd (- rnd y)"
    by (simp add: fsub_def y)
  also have "\<dots> = - rnd (rnd y)"
    using assms(1) by (simp add: rounding_def)
  also have "\<dots> = - rnd y"
    using assms(1) by (simp add: rounding_def)
  finally show ?thesis by (simp add: y)
qed

text \<open>One rounding of a number of the size of a coordinate moves it by less than \<open>10 ^ -13\<close>.\<close>

lemma accurate_small:
  assumes "accurate rnd" and "- 128 \<le> x" and "x \<le> 128"
  shows "x - 1 / 10000000000000 \<le> rnd x \<and> rnd x \<le> x + 1 / 10000000000000"
proof -
  have "(2::real) ^ 7 \<le> 2 ^ 1023"
    by (rule power_increasing) simp_all
  then have "\<bar>x\<bar> \<le> 2 ^ 1023"
    using assms(2,3) by simp
  then have "\<bar>rnd x - x\<bar> \<le> max (\<bar>x\<bar> / 2 ^ 53) (1 / 2 ^ 1075)"
    using assms(1) by (simp add: accurate_def)
  moreover have "\<bar>x\<bar> / 2 ^ 53 \<le> 128 / 2 ^ 53"
    using assms(2,3) by (simp add: divide_right_mono)
  moreover have "(1::real) / 2 ^ 1075 \<le> 1 / 2 ^ 53"
    by (intro divide_left_mono power_increasing) simp_all
  moreover have "(128::real) / 2 ^ 53 \<le> 1 / 10000000000000" and "(1::real) / 2 ^ 53 \<le> 1 / 10000000000000"
    by simp_all
  ultimately have "\<bar>rnd x - x\<bar> \<le> 1 / 10000000000000"
    by linarith
  then show ?thesis by linarith
qed

text \<open>
  The conversion makes seven roundings (three in \<^verbatim>\<open>float()\<close>, two divisions, two
  additions): its result is within \<open>10 ^ -12\<close> of the exact value.
\<close>

lemma degrees_bound:
  assumes acc: "accurate rnd"
    and d: "0 \<le> d" "d \<le> 100" and m: "0 \<le> m" "m \<le> 60" and s: "0 \<le> s" "s \<le> 60"
  shows "d + m / 60 + s / 3600 - 1 / 1000000000000
           \<le> fadd rnd (fadd rnd (rnd d) (fdiv rnd (rnd m) 60)) (fdiv rnd (rnd s) 3600)
         \<and> fadd rnd (fadd rnd (rnd d) (fdiv rnd (rnd m) 60)) (fdiv rnd (rnd s) 3600)
           \<le> d + m / 60 + s / 3600 + 1 / 1000000000000"
proof -
  define q1 where "q1 = rnd (rnd m / 60)"
  define q2 where "q2 = rnd (rnd s / 3600)"
  define a1 where "a1 = rnd (rnd d + q1)"
  note small = accurate_small [OF acc]
  have d': "d - 1 / 10000000000000 \<le> rnd d \<and> rnd d \<le> d + 1 / 10000000000000"
    using d by (intro small) linarith+
  have m': "m - 1 / 10000000000000 \<le> rnd m \<and> rnd m \<le> m + 1 / 10000000000000"
    using m by (intro small) linarith+
  have s': "s - 1 / 10000000000000 \<le> rnd s \<and> rnd s \<le> s + 1 / 10000000000000"
    using s by (intro small) linarith+
  have q1: "rnd m / 60 - 1 / 10000000000000 \<le> q1 \<and> q1 \<le> rnd m / 60 + 1 / 10000000000000"
    unfolding q1_def using m m' by (intro small) linarith+
  have q2: "rnd s / 3600 - 1 / 10000000000000 \<le> q2 \<and> q2 \<le> rnd s / 3600 + 1 / 10000000000000"
    unfolding q2_def using s s' by (intro small) linarith+
  have a1: "rnd d + q1 - 1 / 10000000000000 \<le> a1 \<and> a1 \<le> rnd d + q1 + 1 / 10000000000000"
    unfolding a1_def using d d' m m' q1 by (intro small) linarith+
  have r: "a1 + q2 - 1 / 10000000000000 \<le> rnd (a1 + q2)
      \<and> rnd (a1 + q2) \<le> a1 + q2 + 1 / 10000000000000"
    using d d' m m' s s' q1 q2 a1 by (intro small) linarith+
  have "d + m / 60 + s / 3600 - 1 / 1000000000000 \<le> rnd (a1 + q2)
      \<and> rnd (a1 + q2) \<le> d + m / 60 + s / 3600 + 1 / 1000000000000"
    using d' m' s' q1 q2 a1 r by linarith
  then show ?thesis
    by (simp only: fadd_def fdiv_def a1_def q1_def q2_def)
qed

subsection \<open>The claims\<close>






text \<open>
  C4. For every GPS sub-block with all four required keys (and coordinates that convert):
  the latitude is returned as computed exactly when the latitude reference is the string
  \<^verbatim>\<open>N\<close>, and negated for any other value (\<^verbatim>\<open>S\<close>, lower-case \<^verbatim>\<open>n\<close>, the empty string, a
  value that is no string); the longitude is returned as computed exactly when the
  longitude reference is \<^verbatim>\<open>E\<close>, and negated otherwise. The test is equality of strings.
\<close>

theorem get_lat_lon_hemisphere:
  assumes "rounding rnd"
    and "exif_data (TagName ''GPSInfo'') = Some (GPSBlock g)"
    and "g (TagName ''GPSLatitude'') = Some gps_latitude"
    and "g (TagName ''GPSLatitudeRef'') = Some gps_latitude_ref"
    and "g (TagName ''GPSLongitude'') = Some gps_longitude"
    and "g (TagName ''GPSLongitudeRef'') = Some gps_longitude_ref"
    and "convert_to_degrees rnd gps_latitude = Inr lat"
    and "convert_to_degrees rnd gps_longitude = Inr lon"
  shows "get_lat_lon rnd exif_data =
           Inr (Some (if gps_latitude_ref = Text ''N'' then lat else - lat),
                Some (if gps_longitude_ref = Text ''E'' then lon else - lon))"
  using assms(2-8) negate_exact [OF assms(1,7)] negate_exact [OF assms(1,8)]
  by (simp add: get_lat_lon_block)

theorem get_lat_lon_hemisphere_witness:
  "rounding id
   \<and> get_lat_lon id (scenario ''N'' ''E'')
       = Inr (Some (40 + 44 / 60 + 54.36 / 3600), Some (73 + 59 / 60 + 8.76 / 3600))
   \<and> get_lat_lon id (scenario ''S'' ''W'')
       = Inr (Some (- (40 + 44 / 60 + 54.36 / 3600)), Some (- (73 + 59 / 60 + 8.76 / 3600)))
   \<and> get_lat_lon id (scenario ''n'' ''e'')
       = Inr (Some (- (40 + 44 / 60 + 54.36 / 3600)), Some (- (73 + 59 / 60 + 8.76 / 3600)))
   \<and> get_lat_lon id (scenario '''' '''')
       = Inr (Some (- (40 + 44 / 60 + 54.36 / 3600)), Some (- (73 + 59 / 60 + 8.76 / 3600)))"
proof -
  have c1: "convert_to_degrees id (Seq [Num 40, Num 44, Num 54.36])
      = Inr (40 + 44 / 60 + 54.36 / 3600)"
    by (simp add: convert_to_degrees_numbers fadd_def fdiv_def)
  have c2: "convert_to_degrees id (Seq [Num 73, Num 59, Num 8.76])
      = Inr (73 + 59 / 60 + 8.76 / 3600)"
    by (simp add: convert_to_degrees_numbers fadd_def fdiv_def)
  have h: "get_lat_lon id (scenario a b) =
      Inr (Some (if Text a = Text ''N'' then 40 + 44 / 60 + 54.36 / 3600
                 else - (40 + 44 / 60 + 54.36 / 3600)),
           Some (if Text b = Text ''E'' then 73 + 59 / 60 + 8.76 / 3600
                 else - (73 + 59 / 60 + 8.76 / 3600)))" for a b
    by (rule get_lat_lon_hemisphere [OF rounding_id _ _ _ _ _ c1 c2,
          where g = "gps_block (Seq [Num 40, Num 44, Num 54.36]) (Text a)
                       (Seq [Num 73, Num 59, Num 8.76]) (Text b)"])
       (simp_all add: scenario_def gps_block_def)
  show ?thesis
    using h [of "''N''" "''E''"] h [of "''S''" "''W''"] h [of "''n''" "''e''"]
      h [of "''''" "''''"] rounding_id
    by simp
qed

text \<open>
  C5. For every tag mapping, the pair \<^verbatim>\<open>get_lat_lon\<close> returns has both coordinates or
  neither: never exactly one of them.
\<close>

theorem get_lat_lon_both_or_neither:
  assumes "get_lat_lon rnd exif_data = Inr (lat, lon)"
  shows "(lat = None) = (lon = None)"
  using assms by (auto simp add: get_lat_lon_def Let_def split: sum.splits option.splits)

theorem get_lat_lon_both_or_neither_witness:
  "(\<exists>lat lon. get_lat_lon id Map.empty = Inr (lat, lon) \<and> (lat = None) = (lon = None))
   \<and> (\<exists>lat lon. get_lat_lon id (scenario ''N'' ''W'') = Inr (lat, lon)
         \<and> (lat = None) = (lon = None))"
proof -
  obtain p where p: "get_lat_lon id Map.empty = Inr p"
    by (simp add: get_lat_lon_def)
  obtain q where q: "get_lat_lon id (scenario ''N'' ''W'') = Inr q"
    by (simp add: get_lat_lon_scenario_eq)
  show ?thesis
    using get_lat_lon_both_or_neither [of id Map.empty "fst p" "snd p"]
      get_lat_lon_both_or_neither [of id "scenario ''N'' ''W''" "fst q" "snd q"] p q
    by (metis prod.collapse)
qed

text \<open>
  C6. For every tag mapping with no \<^verbatim>\<open>"GPSInfo"\<close> key, the empty mapping included,
  \<^verbatim>\<open>get_lat_lon\<close> returns \<^verbatim>\<open>(None, None)\<close> and raises no exception.
\<close>

theorem get_lat_lon_no_gpsinfo:
  assumes "exif_data (TagName ''GPSInfo'') = None"
  shows "get_lat_lon rnd exif_data = Inr (None, None)"
  using assms by (simp add: get_lat_lon_def)

theorem get_lat_lon_no_gpsinfo_witness:
  "get_lat_lon id Map.empty = Inr (None, None)
   \<and> get_lat_lon id [TagName ''Make'' \<mapsto> Plain, TagId 59932 \<mapsto> Plain] = Inr (None, None)"
  using get_lat_lon_no_gpsinfo [of Map.empty id]
    get_lat_lon_no_gpsinfo [of "[TagName ''Make'' \<mapsto> Plain, TagId 59932 \<mapsto> Plain]" id]
  by simp

text \<open>
  C9. For the sub-block with latitude \<open>[40, 44, 54.36]\<close>, reference \<^verbatim>\<open>N\<close>, longitude
  \<open>[73, 59, 8.76]\<close>, reference \<^verbatim>\<open>W\<close>, \<^verbatim>\<open>get_lat_lon\<close> returns \<open>(40.7484, -73.9858)\<close> to four
  decimal places; with the references \<^verbatim>\<open>S\<close> and \<^verbatim>\<open>E\<close> it returns \<open>(-40.7484, 73.9858)\<close> to
  four decimal places. This holds in float arithmetic, whatever the roundings within the
  accuracy of binary64.
\<close>

theorem get_lat_lon_scenario:
  assumes "accurate rnd"
  shows "(\<exists>lat lon. get_lat_lon rnd (scenario ''N'' ''W'') = Inr (Some lat, Some lon)
            \<and> \<bar>lat - 40.7484\<bar> \<le> 5 / 100000 \<and> \<bar>lon - (- 73.9858)\<bar> \<le> 5 / 100000)
       \<and> (\<exists>lat lon. get_lat_lon rnd (scenario ''S'' ''E'') = Inr (Some lat, Some lon)
            \<and> \<bar>lat - (- 40.7484)\<bar> \<le> 5 / 100000 \<and> \<bar>lon - 73.9858\<bar> \<le> 5 / 100000)"
proof -
  define x where
    "x = fadd rnd (fadd rnd (rnd 40) (fdiv rnd (rnd 44) 60)) (fdiv rnd (rnd 54.36) 3600)"
  define y where
    "y = fadd rnd (fadd rnd (rnd 73) (fdiv rnd (rnd 59) 60)) (fdiv rnd (rnd 8.76) 3600)"
  have "40 + 44 / 60 + 54.36 / 3600 - 1 / 1000000000000 \<le> x
      \<and> x \<le> 40 + 44 / 60 + 54.36 / 3600 + 1 / 1000000000000"
    unfolding x_def by (rule degrees_bound [OF assms]) simp_all
  then have x: "4074843 / 100000 \<le> x \<and> x \<le> 4074844 / 100000"
    by simp
  have "73 + 59 / 60 + 8.76 / 3600 - 1 / 1000000000000 \<le> y
      \<and> y \<le> 73 + 59 / 60 + 8.76 / 3600 + 1 / 1000000000000"
    unfolding y_def by (rule degrees_bound [OF assms]) simp_all
  then have y: "7398576 / 100000 \<le> y \<and> y \<le> 7398577 / 100000"
    by simp
  have nx: "- x - 1 / 10000000000000 \<le> fsub rnd 0 x
      \<and> fsub rnd 0 x \<le> - x + 1 / 10000000000000"
    unfolding fsub_def using x accurate_small [OF assms, of "0 - x"] by simp
  have ny: "- y - 1 / 10000000000000 \<le> fsub rnd 0 y
      \<and> fsub rnd 0 y \<le> - y + 1 / 10000000000000"
    unfolding fsub_def using y accurate_small [OF assms, of "0 - y"] by simp
  have nw: "get_lat_lon rnd (scenario ''N'' ''W'') = Inr (Some x, Some (fsub rnd 0 y))"
    by (simp add: get_lat_lon_scenario_eq x_def y_def)
  have se: "get_lat_lon rnd (scenario ''S'' ''E'') = Inr (Some (fsub rnd 0 x), Some y)"
    by (simp add: get_lat_lon_scenario_eq x_def y_def)
  have "\<bar>x - 40.7484\<bar> \<le> 5 / 100000"
    using x by (simp add: abs_le_iff)
  moreover have "\<bar>fsub rnd 0 y - (- 73.9858)\<bar> \<le> 5 / 100000"
    using y ny by (simp add: abs_le_iff)
  moreover have "\<bar>fsub rnd 0 x - (- 40.7484)\<bar> \<le> 5 / 100000"
    using x nx by (simp add: abs_le_iff)
  moreover have "\<bar>y - 73.9858\<bar> \<le> 5 / 100000"
    using y by (simp add: abs_le_iff)
  ultimately show ?thesis
    using nw se by simp
qed

theorem get_lat_lon_scenario_witness:
  "accurate id
   \<and> (\<exists>lat lon. get_lat_lon id (scenario ''N'' ''W'') = Inr (Some lat, Some lon)
            \<and> \<bar>lat - 40.7484\<bar> \<le> 5 / 100000 \<and> \<bar>lon - (- 73.9858)\<bar> \<le> 5 / 100000)
   \<and> (\<exists>lat lon. get_lat_lon id (scenario ''S'' ''E'') = Inr (Some lat, Some lon)
            \<and> \<bar>lat - (- 40.7484)\<bar> \<le> 5 / 100000 \<and> \<bar>lon - 73.9858\<bar> \<le> 5 / 100000)"
  using get_lat_lon_scenario [OF accurate_id] accurate_id by blast

text \<open>
  C10. Two tag mappings whose GPS sub-blocks both hold the four required keys, with the
  same four values, give the same result (the same pair, or the same exception),
  whatever other tags the mappings and other sub-tags the sub-blocks hold.
\<close>

theorem get_lat_lon_depends_on_four_keys:
  assumes "exif_data (TagName ''GPSInfo'') = Some (GPSBlock g)"
    and "exif_data' (TagName ''GPSInfo'') = Some (GPSBlock g')"
    and "g (TagName ''GPSLatitude'') = Some gps_latitude"
    and "g (TagName ''GPSLatitudeRef'') = Some gps_latitude_ref"
    and "g (TagName ''GPSLongitude'') = Some gps_longitude"
    and "g (TagName ''GPSLongitudeRef'') = Some gps_longitude_ref"
    and "g' (TagName ''GPSLatitude'') = Some gps_latitude"
    and "g' (TagName ''GPSLatitudeRef'') = Some gps_latitude_ref"
    and "g' (TagName ''GPSLongitude'') = Some gps_longitude"
    and "g' (TagName ''GPSLongitudeRef'') = Some gps_longitude_ref"
  shows "get_lat_lon rnd exif_data = get_lat_lon rnd exif_data'"
  by (simp add: get_lat_lon_block [where exif_data = exif_data and g = g, OF assms(1,3-6)]
      get_lat_lon_block [where exif_data = exif_data' and g = g', OF assms(2,7-10)])

theorem get_lat_lon_depends_on_four_keys_witness:
  "get_lat_lon id (scenario ''N'' ''W'') = get_lat_lon id (scenario_among_others ''N'' ''W'')
   \<and> scenario ''N'' ''W'' \<noteq> scenario_among_others ''N'' ''W''"
proof -
  have "get_lat_lon id (scenario ''N'' ''W'') = get_lat_lon id (scenario_among_others ''N'' ''W'')"
    by (rule get_lat_lon_depends_on_four_keys
          [where g = "gps_block (Seq [Num 40, Num 44, Num 54.36]) (Text ''N'')
                        (Seq [Num 73, Num 59, Num 8.76]) (Text ''W'')"
             and g' = "(gps_block (Seq [Num 40, Num 44, Num 54.36]) (Text ''N'')
                        (Seq [Num 73, Num 59, Num 8.76]) (Text ''W''))
                       (TagName ''GPSAltitude'' \<mapsto> Other, TagId 31 \<mapsto> Other)"])
       (simp_all add: scenario_def scenario_among_others_def gps_block_def)
  moreover have "scenario ''N'' ''W'' (TagName ''Make'')
      \<noteq> scenario_among_others ''N'' ''W'' (TagName ''Make'')"
    by (simp add: scenario_def scenario_among_others_def)
  ultimately show ?thesis by metis
qed

section \<open>Properties of the signature verification\<close>

subsection \<open>The expected signature\<close>

lemma digest_length: "length (digest st) = 32"
  by (induction st rule: digest.induct) (simp add: bytes32_def)

lemma sha256_length: "length (sha256 m) = 32"
  by (simp add: sha256_def digest_length)

lemma hmac_sha256_length: "length (hmac_sha256 key msg) = 32"
  by (simp add: hmac_sha256_def Let_def sha256_length)

lemma hexdigest_length: "length (hexdigest bs) = 2 * length bs"
  by (induction bs) (simp_all add: hexdigest_def)

lemma expected_length: "length (hexdigest (hmac_sha256 key msg)) = 64"
  by (simp add: hexdigest_length hmac_sha256_length)

lemma hex_digit_ascii: "n < 16 \<Longrightarrow> hex_digit n < 128"
  by (simp add: hex_digit_def)

lemma hexdigest_ascii: "is_ascii (hexdigest bs)"
proof (induction bs)
  case Nil
  show ?case by (simp add: hexdigest_def is_ascii_def)
next
  case (Cons b bs)
  have "unat b < 256"
    using unsigned_less [of b] by simp
  then have "unat b div 16 < 16"
    by simp
  moreover have "unat b mod 16 < 16"
    by simp
  ultimately show ?case
    using Cons by (simp add: hexdigest_def is_ascii_def hex_digit_ascii)
qed

subsection \<open>Encoding\<close>

lemma encode_char_ascii: "c < 128 \<Longrightarrow> encode_char c = Inr [word_of_nat c]"
  by (simp add: encode_char_def)

lemma encode_ascii: "is_ascii s \<Longrightarrow> encode s = Inr (map word_of_nat s)"
  by (induction s) (simp_all add: is_ascii_def encode_char_ascii)

lemma encode_secret: "encode (str_of ''secret'') = Inr (map word_of_nat (str_of ''secret''))"
  by (rule encode_ascii) (simp add: is_ascii_def str_of_def)

lemma encode_brackets: "encode (id (str_of ''[]'')) = Inr (map word_of_nat (str_of ''[]''))"
  using encode_ascii [of "str_of ''[]''"] by (simp add: is_ascii_def str_of_def)

lemma with_secret_secret: "BOX_WEBHOOK_SECRET with_secret = Some (str_of ''secret'')"
  by (simp add: with_secret_def)

lemma no_secret_secret: "BOX_WEBHOOK_SECRET no_secret = None"
  by (simp add: no_secret_def)

subsection \<open>Comparison\<close>

lemma compare_digest_None: "compare_digest a None = Inl TypeError"
  by (simp add: compare_digest_def)

lemma compare_digest_str:
  "is_ascii a \<Longrightarrow>
     compare_digest a (Some s) = (if is_ascii s then Inr (a = s) else Inl TypeError)"
  by (simp add: compare_digest_def)

lemma compare_digest_true_iff:
  "is_ascii a \<Longrightarrow> (compare_digest a b = Inr True) = (b = Some a)"
  by (auto simp add: compare_digest_def split: option.splits)

lemma is_ascii_nth: "is_ascii s \<Longrightarrow> i < length s \<Longrightarrow> s ! i < 128"
  by (simp add: is_ascii_def list_all_length)

subsection \<open>Flipping one bit of a character\<close>

lemma flip_bit_neq: "flip_bit k (c :: nat) \<noteq> c"
proof
  assume "flip_bit k c = c"
  then have "bit (flip_bit k c) k = bit c k"
    by simp
  then show False
    by (simp add: bit_flip_bit_iff)
qed

lemma bit_ascii:
  assumes "(c :: nat) < 128" and "7 \<le> n"
  shows "\<not> bit c n"
proof -
  have "(2::nat) ^ 7 \<le> 2 ^ n"
    using assms(2) by (rule power_increasing) simp
  then have "c < 2 ^ n"
    using assms(1) by simp
  then show ?thesis
    by (simp add: bit_iff_odd)
qed

lemma flip_low_ascii:
  assumes "(c :: nat) < 128" and "k < 7"
  shows "flip_bit k c < 128"
proof -
  have "take_bit 7 (flip_bit k c) = flip_bit k c"
    using assms(2) bit_ascii [OF assms(1)]
    by (intro bit_eqI) (auto simp add: bit_take_bit_iff bit_flip_bit_iff not_le [symmetric])
  moreover have "take_bit 7 (flip_bit k c) < 2 ^ 7"
    by (rule take_bit_nat_less_exp)
  ultimately show ?thesis by simp
qed

lemma flip_high_not_ascii:
  assumes "(c :: nat) < 128" and "7 \<le> k"
  shows "\<not> flip_bit k c < 128"
proof
  assume "flip_bit k c < 128"
  then have "\<not> bit (flip_bit k c) k"
    using assms(2) by (rule bit_ascii)
  moreover have "\<not> bit c k"
    using assms by (rule bit_ascii)
  ultimately show False
    by (simp add: bit_flip_bit_iff)
qed

lemma flip_sig_bit_neq: "i < length s \<Longrightarrow> flip_sig_bit i k s \<noteq> s"
proof
  assume i: "i < length s" and eq: "flip_sig_bit i k s = s"
  have "flip_sig_bit i k s ! i = flip_bit k (s ! i)"
    using i by (simp add: flip_sig_bit_def)
  then show False
    using eq flip_bit_neq [of k "s ! i"] by simp
qed

lemma flip_sig_bit_ascii:
  assumes "is_ascii s" and "i < length s"
  shows "is_ascii (flip_sig_bit i k s) = (k < 7)"
proof (cases "k < 7")
  case True
  have "flip_bit k (s ! i) < 128"
    using is_ascii_nth [OF assms] True by (rule flip_low_ascii)
  then have "\<forall>j < length s. s[i := flip_bit k (s ! i)] ! j < 128"
    using assms by (simp add: nth_list_update is_ascii_nth)
  then show ?thesis
    using True by (simp add: is_ascii_def flip_sig_bit_def list_all_length)
next
  case False
  then have "\<not> flip_bit k (s ! i) < 128"
    using is_ascii_nth [OF assms] by (intro flip_high_not_ascii) simp_all
  then have "\<not> flip_sig_bit i k s ! i < 128"
    using assms(2) by (simp add: flip_sig_bit_def)
  moreover have "i < length (flip_sig_bit i k s)"
    using assms(2) by (simp add: flip_sig_bit_def)
  ultimately have "\<not> is_ascii (flip_sig_bit i k s)"
    using is_ascii_nth by blast
  then show ?thesis
    using False by simp
qed

lemma compare_digest_flipped:
  assumes "is_ascii a" and "i < length a"
  shows "compare_digest a (Some (flip_sig_bit i k a))
           = (if k < 7 then Inr False else Inl TypeError)"
  using flip_sig_bit_neq [OF assms(2), of k] flip_sig_bit_ascii [OF assms, of k]
  by (auto simp add: compare_digest_str [OF assms(1)])

subsection \<open>The verifier, case by case\<close>

lemma verify_signature_unset:
  "BOX_WEBHOOK_SECRET cfg = None \<Longrightarrow>
     verify_signature py_str cfg payload signature = Inl AttributeError"
  by (simp add: verify_signature_def)

lemma verify_signature_configured:
  assumes "BOX_WEBHOOK_SECRET cfg = Some secret"
    and "encode secret = Inr key"
    and "encode (py_str payload) = Inr msg"
  shows "verify_signature py_str cfg payload signature =
           compare_digest (hexdigest (hmac_sha256 key msg)) signature"
  using assms by (simp add: verify_signature_def)

subsection \<open>The claims\<close>

text \<open>
  C2, as the code has it. \<^verbatim>\<open>verify_signature\<close> is not total. It raises AttributeError
  when the webhook secret is unset (it does not return false), TypeError when the
  signature is None or a string that is not ASCII, and UnicodeEncodeError when the secret
  or \<^verbatim>\<open>str(payload)\<close> holds a surrogate. In every other case (a secret that is set, and an
  ASCII signature) it returns a boolean: whether the signature is the expected one.
\<close>

theorem verify_signature_results:
  "(BOX_WEBHOOK_SECRET cfg = None \<longrightarrow>
      verify_signature py_str cfg payload signature = Inl AttributeError)
   \<and> (\<forall>secret key msg.
        BOX_WEBHOOK_SECRET cfg = Some secret \<and> encode secret = Inr key
          \<and> encode (py_str payload) = Inr msg \<longrightarrow>
        verify_signature py_str cfg payload signature =
          (case signature of
             None \<Rightarrow> Inl TypeError
           | Some s \<Rightarrow>
               if is_ascii s then Inr (s = hexdigest (hmac_sha256 key msg)) else Inl TypeError))
   \<and> (\<forall>secret. BOX_WEBHOOK_SECRET cfg = Some secret \<and> encode secret = Inl UnicodeEncodeError \<longrightarrow>
        verify_signature py_str cfg payload signature = Inl UnicodeEncodeError)
   \<and> (\<forall>secret key. BOX_WEBHOOK_SECRET cfg = Some secret \<and> encode secret = Inr key
          \<and> encode (py_str payload) = Inl UnicodeEncodeError \<longrightarrow>
        verify_signature py_str cfg payload signature = Inl UnicodeEncodeError)"
proof (intro conjI allI impI)
  assume "BOX_WEBHOOK_SECRET cfg = None"
  then show "verify_signature py_str cfg payload signature = Inl AttributeError"
    by (rule verify_signature_unset)
next
  fix secret key msg
  assume "BOX_WEBHOOK_SECRET cfg = Some secret \<and> encode secret = Inr key
          \<and> encode (py_str payload) = Inr msg"
  then have "verify_signature py_str cfg payload signature =
      compare_digest (hexdigest (hmac_sha256 key msg)) signature"
    by (simp add: verify_signature_configured)
  then show "verify_signature py_str cfg payload signature =
          (case signature of
             None \<Rightarrow> Inl TypeError
           | Some s \<Rightarrow>
               if is_ascii s then Inr (s = hexdigest (hmac_sha256 key msg)) else Inl TypeError)"
    by (auto simp add: compare_digest_None compare_digest_str [OF hexdigest_ascii]
        split: option.splits)
next
  fix secret
  assume "BOX_WEBHOOK_SECRET cfg = Some secret \<and> encode secret = Inl UnicodeEncodeError"
  then show "verify_signature py_str cfg payload signature = Inl UnicodeEncodeError"
    by (simp add: verify_signature_def)
next
  fix secret key
  assume "BOX_WEBHOOK_SECRET cfg = Some secret \<and> encode secret = Inr key
          \<and> encode (py_str payload) = Inl UnicodeEncodeError"
  then show "verify_signature py_str cfg payload signature = Inl UnicodeEncodeError"
    by (simp add: verify_signature_def)
qed

theorem verify_signature_results_witness:
  "verify_signature id no_secret (str_of ''[]'') (Some (str_of ''00'')) = Inl AttributeError
   \<and> verify_signature id with_secret (str_of ''[]'') None = Inl TypeError
   \<and> verify_signature id with_secret (str_of ''[]'') (Some [233]) = Inl TypeError
   \<and> verify_signature id with_secret (str_of ''[]'') (Some (str_of ''00'')) = Inr False
   \<and> verify_signature id (no_secret\<lparr>BOX_WEBHOOK_SECRET := Some [0xD800]\<rparr>) (str_of ''[]'') None
       = Inl UnicodeEncodeError
   \<and> verify_signature id with_secret [0xDC00] None = Inl UnicodeEncodeError"
proof -
  note r = verify_signature_results [where py_str = id]
  have a: "verify_signature id no_secret (str_of ''[]'') (Some (str_of ''00'')) = Inl AttributeError"
    using r [of no_secret] no_secret_secret by blast
  have "verify_signature id with_secret (str_of ''[]'') sg =
          (case sg of
             None \<Rightarrow> Inl TypeError
           | Some s \<Rightarrow>
               if is_ascii s
               then Inr (s = hexdigest (hmac_sha256 (map word_of_nat (str_of ''secret''))
                                          (map word_of_nat (str_of ''[]''))))
               else Inl TypeError)" for sg
    using r [of with_secret "str_of ''[]''" sg] with_secret_secret encode_secret encode_brackets
    by blast
  note b = this [of None] this [of "Some [233]"] this [of "Some (str_of ''00'')"]
  have len: "str_of ''00'' \<noteq> hexdigest (hmac_sha256 k m)" for k m
  proof
    assume "str_of ''00'' = hexdigest (hmac_sha256 k m)"
    then have "length (str_of ''00'') = 64"
      by (simp only: expected_length)
    then show False
      by (simp add: str_of_def)
  qed
  have c: "verify_signature id (no_secret\<lparr>BOX_WEBHOOK_SECRET := Some [0xD800]\<rparr>)
      (str_of ''[]'') None = Inl UnicodeEncodeError"
    using r [of "no_secret\<lparr>BOX_WEBHOOK_SECRET := Some [0xD800]\<rparr>" "str_of ''[]''" None]
    by (simp add: encode_char_def)
  have d: "verify_signature id with_secret [0xDC00] None = Inl UnicodeEncodeError"
    using r [of with_secret "[0xDC00]" None] with_secret_secret encode_secret
    by (simp add: encode_char_def)
  show ?thesis
    using a b c d len by (simp add: is_ascii_def str_of_def)
qed

text \<open>
  C2, as stated, fails: with the secret unset the function raises AttributeError
  (\<^verbatim>\<open>None.encode()\<close>), where the claim has it return false and never raise.
\<close>

theorem verify_signature_unset_raises:
  "verify_signature id no_secret (str_of ''[]'') (Some (str_of ''00'')) = Inl AttributeError
   \<and> verify_signature id no_secret (str_of ''[]'') (Some (str_of ''00'')) \<noteq> Inr False"
  by (simp add: verify_signature_unset [OF no_secret_secret])

text \<open>
  C7, as the code has it. With a secret that is set (and that encodes, as \<^verbatim>\<open>str(payload)\<close>
  does), \<^verbatim>\<open>verify_signature\<close> returns true if and only if the signature is the string of
  the hexadecimal HMAC-SHA256 digest of the serialized payload under the secret. A
  signature that differs from it never verifies: the function returns false when that
  signature is ASCII and raises TypeError when it is not. So for a signature that
  differs from the correct one in a single bit of one character, it returns false when
  the bit is one of the low seven, and raises TypeError when the bit is the eighth or
  higher.
\<close>

theorem verify_signature_exact_match:
  assumes "BOX_WEBHOOK_SECRET cfg = Some secret"
    and "encode secret = Inr key"
    and "encode (py_str payload) = Inr msg"
  shows "((verify_signature py_str cfg payload signature = Inr True)
            = (signature = Some (hexdigest (hmac_sha256 key msg))))
       \<and> (\<forall>s. s \<noteq> hexdigest (hmac_sha256 key msg) \<longrightarrow>
             verify_signature py_str cfg payload (Some s)
               = (if is_ascii s then Inr False else Inl TypeError))
       \<and> (\<forall>i k. i < 64 \<longrightarrow>
             verify_signature py_str cfg payload
                 (Some (flip_sig_bit i k (hexdigest (hmac_sha256 key msg))))
               = (if k < 7 then Inr False else Inl TypeError))"
proof -
  let ?e = "hexdigest (hmac_sha256 key msg)"
  have v: "verify_signature py_str cfg payload sg = compare_digest ?e sg" for sg
    using assms by (rule verify_signature_configured)
  have "(verify_signature py_str cfg payload signature = Inr True) = (signature = Some ?e)"
    by (simp add: v compare_digest_true_iff [OF hexdigest_ascii])
  moreover have "verify_signature py_str cfg payload (Some s)
      = (if is_ascii s then Inr False else Inl TypeError)" if "s \<noteq> ?e" for s
    using that by (auto simp add: v compare_digest_str [OF hexdigest_ascii])
  moreover have "verify_signature py_str cfg payload (Some (flip_sig_bit i k ?e))
      = (if k < 7 then Inr False else Inl TypeError)" if "i < 64" for i k
    using that by (simp add: v compare_digest_flipped [OF hexdigest_ascii] expected_length)
  ultimately show ?thesis by blast
qed

theorem verify_signature_exact_match_witness:
  "verify_signature id with_secret (str_of ''[]'') (Some expected_example) = Inr True
   \<and> verify_signature id with_secret (str_of ''[]'') (Some (flip_sig_bit 0 0 expected_example))
       = Inr False
   \<and> verify_signature id with_secret (str_of ''[]'') (Some (flip_sig_bit 63 6 expected_example))
       = Inr False
   \<and> verify_signature id with_secret (str_of ''[]'') (Some (flip_sig_bit 5 8 expected_example))
       = Inl TypeError"
  using verify_signature_exact_match [where py_str = id and payload = "str_of ''[]''"
      and signature = "Some expected_example",
      OF with_secret_secret encode_secret encode_brackets]
  by (simp add: expected_example_def)

text \<open>
  C7, as stated, fails: the correct signature with the eighth bit of its first character
  flipped (the character \<^verbatim>\<open>5\<close>, \<^verbatim>\<open>0x35\<close>, becomes \<^verbatim>\<open>0xB5\<close>) differs from the correct one
  in a single bit, and the function raises TypeError, where the claim has it return
  false.
\<close>

theorem verify_signature_flipped_bit_raises:
  "verify_signature id with_secret (str_of ''[]'') (Some (flip_sig_bit 0 7 expected_example))
     = Inl TypeError
   \<and> verify_signature id with_secret (str_of ''[]'') (Some (flip_sig_bit 0 7 expected_example))
     \<noteq> Inr False"
proof -
  have "verify_signature id with_secret (str_of ''[]'') (Some (flip_sig_bit 0 7 expected_example))
      = compare_digest expected_example (Some (flip_sig_bit 0 7 expected_example))"
    unfolding expected_example_def
    by (rule verify_signature_configured [where py_str = id and payload = "str_of ''[]''",
          OF with_secret_secret encode_secret encode_brackets])
  also have "\<dots> = Inl TypeError"
    using compare_digest_flipped [of expected_example 0 7]
    by (simp add: expected_example_def hexdigest_ascii expected_length)
  finally show ?thesis by simp
qed

text \<open>
  C8. \<^verbatim>\<open>verify_signature\<close> is deterministic: its result is a function of the secret, the
  payload and the signature, and of nothing else in the configuration. Two invocations
  under the same secret with the same payload and signature give the same result, and
  the correct signature verifies in each.
\<close>

theorem verify_signature_deterministic:
  assumes "BOX_WEBHOOK_SECRET cfg = BOX_WEBHOOK_SECRET cfg'"
  shows "verify_signature py_str cfg payload signature
           = verify_signature py_str cfg' payload signature
       \<and> (\<forall>secret key msg.
             BOX_WEBHOOK_SECRET cfg = Some secret \<and> encode secret = Inr key
               \<and> encode (py_str payload) = Inr msg \<longrightarrow>
             verify_signature py_str cfg payload (Some (hexdigest (hmac_sha256 key msg))) = Inr True
             \<and> verify_signature py_str cfg' payload (Some (hexdigest (hmac_sha256 key msg)))
                 = Inr True)"
proof -
  have "verify_signature py_str c payload (Some (hexdigest (hmac_sha256 key msg))) = Inr True"
    if "BOX_WEBHOOK_SECRET c = Some secret" and "encode secret = Inr key"
      and "encode (py_str payload) = Inr msg" for c secret key msg
    using that
    by (simp add: verify_signature_configured compare_digest_true_iff [OF hexdigest_ascii])
  then show ?thesis
    using assms by (auto simp add: verify_signature_def)
qed

theorem verify_signature_deterministic_witness:
  "BOX_WEBHOOK_SECRET with_secret
     = BOX_WEBHOOK_SECRET (with_secret\<lparr>BOX_FOLDER_ID := Some (str_of ''0'')\<rparr>)
   \<and> verify_signature id with_secret (str_of ''[]'') (Some (str_of ''00''))
     = verify_signature id (with_secret\<lparr>BOX_FOLDER_ID := Some (str_of ''0'')\<rparr>)
         (str_of ''[]'') (Some (str_of ''00''))
   \<and> verify_signature id with_secret (str_of ''[]'') (Some expected_example) = Inr True
   \<and> verify_signature id (with_secret\<lparr>BOX_FOLDER_ID := Some (str_of ''0'')\<rparr>)
         (str_of ''[]'') (Some expected_example) = Inr True"
proof -
  have s: "BOX_WEBHOOK_SECRET with_secret
     = BOX_WEBHOOK_SECRET (with_secret\<lparr>BOX_FOLDER_ID := Some (str_of ''0'')\<rparr>)"
    by simp
  show ?thesis
    using verify_signature_deterministic [OF s, of id "str_of ''[]''" "Some (str_of ''00'')"]
      with_secret_secret encode_secret encode_brackets s
    unfolding expected_example_def by blast
qed

end
